theory Spec2Isabelle
  imports Main
begin

section \<open>Python values used by app.py\<close>

text \<open>
  A Python \<open>str\<close> is a sequence of code points; it is modelled as a HOL \<open>string\<close>,
  one \<open>char\<close> per code point, so the alphabet is the 8-bit range that \<open>char\<close> offers.
  Offsets and lengths count elements, as Python's do.
\<close>

text \<open>
  The character classes of Python's \<open>re\<close> on \<open>str\<close> patterns, on this alphabet:
  \<open>\d\<close> is the decimal digits \<open>0\<close>..\<open>9\<close>; \<open>\s\<close> is tab, newline, vertical tab,
  form feed, carriage return, the four separators U+001C..U+001F, space, U+0085 and
  U+00A0.
\<close>

definition re_digit :: "char \<Rightarrow> bool" where
  "re_digit c = (c \<in> set ''0123456789'')"

definition re_space :: "char \<Rightarrow> bool" where
  "re_space c = (c \<in> set [CHR 0x09, CHR 0x0A, CHR 0x0B, CHR 0x0C, CHR 0x0D,
                           CHR 0x1C, CHR 0x1D, CHR 0x1E, CHR 0x1F, CHR 0x20,
                           CHR 0x85, CHR 0xA0])"

text \<open>
  A greedy match of \<open>[cls]+\<close> at the head of a string: the matched text and the rest,
  or \<open>None\<close> when the first character is not in the class (one repetition at least).
\<close>

fun re_class_star :: "(char \<Rightarrow> bool) \<Rightarrow> string \<Rightarrow> string \<times> string" where
  "re_class_star cls [] = ([], [])"
| "re_class_star cls (c # cs) =
     (if cls c then (case re_class_star cls cs of (m, rest) \<Rightarrow> (c # m, rest))
      else ([], c # cs))"

definition re_class_plus :: "(char \<Rightarrow> bool) \<Rightarrow> string \<Rightarrow> (string \<times> string) option" where
  "re_class_plus cls s =
     (case re_class_star cls s of (m, rest) \<Rightarrow> if m = [] then None else Some (m, rest))"


section \<open>clean_question\<close>

text \<open>
  \<^verbatim>\<open>def clean_question(s): return re.sub(r"^[\d\.\s]+", "", s)\<close>

  Without the MULTILINE flag \<open>^\<close> matches at offset 0 only, so \<open>re.sub\<close> finds at most
  one match; it is replaced by the empty string. No match leaves \<open>s\<close> as it is.
\<close>

definition question_number_char :: "char \<Rightarrow> bool" where
  "question_number_char c = (re_digit c \<or> c = CHR ''.'' \<or> re_space c)"

definition clean_question :: "string \<Rightarrow> string" where
  "clean_question s =
     (case re_class_plus question_number_char s of
        None \<Rightarrow> s
      | Some (m, rest) \<Rightarrow> [] @ rest)"


section \<open>markdown_escape\<close>

text \<open>
  \<^verbatim>\<open>def markdown_escape(text): return re.sub(r"([\$\+\#\`\{\}])", "\\\1", text)\<close>

  The pattern matches one character of the class at a time. The replacement is an
  ordinary (not raw) string literal: \<open>\\\<close> is one backslash and \<open>\1\<close> is the octal
  escape for U+0001, so the template handed to \<open>re.sub\<close> has two characters, a
  backslash and U+0001. The template parser reads them as an escape whose second
  character is neither a digit, \<open>g\<close> nor a letter, and keeps both as literal text.
\<close>

definition markup_char :: "char \<Rightarrow> bool" where
  "markup_char c = (c \<in> set [CHR ''$'', CHR ''+'', CHR ''#'', CHR 0x60, CHR ''{'', CHR ''}''])"

definition escape_template :: string where
  "escape_template = [CHR 0x5C, CHR 0x01]"

fun markdown_escape :: "string \<Rightarrow> string" where
  "markdown_escape [] = []"
| "markdown_escape (c # cs) =
     (if markup_char c then escape_template @ markdown_escape cs
      else c # markdown_escape cs)"


section \<open>Slices, truth values and formatting\<close>

text \<open>
  A slice bound of Python: a negative bound counts from the end, and every bound is
  clipped to \<open>0..len\<close>. A slice whose upper bound is not above its lower bound is empty.
  Slicing never raises.
\<close>

definition py_index :: "nat \<Rightarrow> int \<Rightarrow> nat" where
  "py_index n i = (if i < 0 then nat (max 0 (int n + i)) else min n (nat i))"

definition py_slice :: "'a list \<Rightarrow> int \<Rightarrow> int \<Rightarrow> 'a list" where
  "py_slice xs a b =
     (let lo = py_index (length xs) a; hi = py_index (length xs) b
      in take (hi - lo) (drop lo xs))"

definition py_slice_from :: "'a list \<Rightarrow> int \<Rightarrow> 'a list" where
  "py_slice_from xs a = drop (py_index (length xs) a) xs"

text \<open>
  The colour arguments default to \<open>None\<close>. \<open>if bg_color:\<close> is false for \<open>None\<close> and
  for the empty string; an f-string prints \<open>None\<close> as the text \<open>None\<close>.
\<close>

definition py_truthy :: "string option \<Rightarrow> bool" where
  "py_truthy v = (case v of None \<Rightarrow> False | Some s \<Rightarrow> s \<noteq> [])"

definition py_format :: "string option \<Rightarrow> string" where
  "py_format v = (case v of None \<Rightarrow> ''None'' | Some s \<Rightarrow> s)"


section \<open>Style markers\<close>

text \<open>
  \<^verbatim>\<open>def markdown_bgcolor(text, bg_color):
      return f'<span style="background-color:{bg_color};">{text}</span>'
  def markdown_fgcolor(text, fg_color):
      return f":{fg_color}[{text}]"\<close>
\<close>

definition markdown_bgcolor :: "string \<Rightarrow> string option \<Rightarrow> string" where
  "markdown_bgcolor text bg_color =
     ''<span style='' @ [CHR 0x22] @ ''background-color:'' @ py_format bg_color
       @ '';'' @ [CHR 0x22] @ ''>'' @ text @ ''</span>''"

definition markdown_fgcolor :: "string \<Rightarrow> string option \<Rightarrow> string" where
  "markdown_fgcolor text fg_color = '':'' @ py_format fg_color @ ''['' @ text @ '']''"


section \<open>markdown2\<close>

text \<open>
  A span is a pair of Python integers. The three searches are imported from
  \<open>utils.utils_text\<close>; app.py only calls them, so they are parameters of the model:
  each takes the text and the tokens and returns a list of spans.
\<close>

type_synonym span = "int \<times> int"

record utils_text =
  spans_of_tokens_ordered :: "string \<Rightarrow> string list \<Rightarrow> span list"
  spans_of_tokens_compact :: "string \<Rightarrow> string list \<Rightarrow> span list"
  spans_of_tokens_all :: "string \<Rightarrow> string list \<Rightarrow> span list"

text \<open>
  What a run of \<open>markdown2\<close> does besides returning: it calls searches and prints.
  Both are recorded, in order, in a log that is passed in and returned extended.
\<close>

datatype tier = Tier_ordered | Tier_compact | Tier_all

datatype event =
    Printed_tokens "string list"
  | Called tier string "string list"
  | Printed_spans tier "span list"

fun tier_search :: "utils_text \<Rightarrow> tier \<Rightarrow> string \<Rightarrow> string list \<Rightarrow> span list" where
  "tier_search U Tier_ordered = spans_of_tokens_ordered U"
| "tier_search U Tier_compact = spans_of_tokens_compact U"
| "tier_search U Tier_all = spans_of_tokens_all U"

definition call_tier ::
  "utils_text \<Rightarrow> tier \<Rightarrow> string \<Rightarrow> string list \<Rightarrow> event list \<Rightarrow> span list \<times> event list" where
  "call_tier U t text tokens log = (tier_search U t text tokens, log @ [Called t text tokens])"

definition print_spans :: "tier \<Rightarrow> span list \<Rightarrow> event list \<Rightarrow> event list" where
  "print_spans t spans log = log @ [Printed_spans t spans]"

text \<open>
  Lines 132 to 140, the choice of the spans:
  \<^verbatim>\<open>spans = []
  if len(tokens) < 20:  # OOM
      spans = spans_of_tokens_ordered(text, tokens)
      if not spans:
          spans = spans_of_tokens_compact(text, tokens)
          print("spans_of_tokens_compact:", spans)
  if not spans:
      spans = spans_of_tokens_all(text, tokens)
      print("spans_of_tokens_all:", spans)\<close>
\<close>

definition markdown2_spans ::
  "utils_text \<Rightarrow> string \<Rightarrow> string list \<Rightarrow> event list \<Rightarrow> span list \<times> event list" where
  "markdown2_spans U text tokens log0 =
     (let (spans, log1) =
        (if length tokens < 20 then
           (let (spans, log) = call_tier U Tier_ordered text tokens log0
            in if spans = [] then
                 (let (spans, log) = call_tier U Tier_compact text tokens log
                  in (spans, print_spans Tier_compact spans log))
               else (spans, log))
         else ([], log0))
      in if spans = [] then
           (let (spans, log) = call_tier U Tier_all text tokens log1
            in (spans, print_spans Tier_all spans log))
         else (spans, log1))"

text \<open>
  Lines 142 to 150, the substitution:
  \<^verbatim>\<open>output, k = "", 0
  for i, j in spans:
      output += text[k:i]
      k = j
      if bg_color:
          output += markdown_bgcolor(text[i:j], bg_color)
      else:
          output += markdown_fgcolor(text[i:j], fg_color)
  output += text[k:]\<close>
\<close>

fun markdown2_loop ::
  "string \<Rightarrow> string option \<Rightarrow> string option \<Rightarrow> span list \<Rightarrow> string \<times> int \<Rightarrow> string \<times> int" where
  "markdown2_loop text fg_color bg_color [] (output, k) = (output, k)"
| "markdown2_loop text fg_color bg_color ((i, j) # spans) (output, k) =
     (let output1 = output @ py_slice text k i;
          output2 = (if py_truthy bg_color
                     then output1 @ markdown_bgcolor (py_slice text i j) bg_color
                     else output1 @ markdown_fgcolor (py_slice text i j) fg_color)
      in markdown2_loop text fg_color bg_color spans (output2, j))"

definition markdown2_render ::
  "string \<Rightarrow> span list \<Rightarrow> string option \<Rightarrow> string option \<Rightarrow> string" where
  "markdown2_render text spans fg_color bg_color =
     (case markdown2_loop text fg_color bg_color spans ([], 0) of
        (output, k) \<Rightarrow> output @ py_slice_from text k)"

definition markdown2 ::
  "utils_text \<Rightarrow> string \<Rightarrow> string list \<Rightarrow> string option \<Rightarrow> string option \<Rightarrow> event list
     \<Rightarrow> string \<times> event list" where
  "markdown2 U text tokens fg_color bg_color log =
     (let (spans, log1) = markdown2_spans U text tokens (log @ [Printed_tokens tokens])
      in (markdown2_render text spans fg_color bg_color, log1))"


section \<open>The two highlighting passes of main\<close>

text \<open>
  Lines 318 to 321:
  \<^verbatim>\<open>markd = markdown_escape(all_text)
  markd = markdown2(text=markd, tokens=tokens_answer, bg_color="#90EE90")
  markd = markdown2(text=markd, tokens=tokens_miss, bg_color="red")\<close>
\<close>

definition main_highlight ::
  "utils_text \<Rightarrow> string \<Rightarrow> string list \<Rightarrow> string list \<Rightarrow> event list \<Rightarrow> string \<times> event list" where
  "main_highlight U all_text tokens_answer tokens_miss log =
     (let markd0 = markdown_escape all_text;
          (markd1, log1) = markdown2 U markd0 tokens_answer None (Some ''#90EE90'') log;
          (markd2, log2) = markdown2 U markd1 tokens_miss None (Some ''red'') log1
      in (markd2, log2))"


section \<open>The start of the module\<close>

text \<open>
  Lines 30 and 31 run when the module is loaded, before the first call into the page
  toolkit (\<open>st.set_page_config\<close>, line 34) and before \<open>main()\<close> (line 328):
  \<^verbatim>\<open>if "BUCKET_NAME" not in os.environ:
      raise Exception("S3 Bucket must be set for Textract processing. ...")\<close>
  \<open>os.environ\<close> is a map from names to values; a variable set to the empty string is in it.
\<close>

datatype py_exception = Exception string

definition bucket_name_check :: "(string \<rightharpoonup> string) \<Rightarrow> py_exception + unit" where
  "bucket_name_check environ =
     (if ''BUCKET_NAME'' \<notin> dom environ
      then Inl (Exception ''S3 Bucket must be set for Textract processing. Please see README for more information'')
      else Inr ())"

datatype module_step = Set_page_config | Write_style | Markdown_css | Run_main

definition app_module ::
  "(string \<rightharpoonup> string) \<Rightarrow> module_step list \<Rightarrow> (py_exception + unit) \<times> module_step list" where
  "app_module environ steps =
     (case bucket_name_check environ of
        Inl e \<Rightarrow> (Inl e, steps)
      | Inr _ \<Rightarrow> (Inr (), steps @ [Set_page_config, Write_style, Markdown_css, Run_main]))"


section \<open>Sample searches\<close>

text \<open>
  Two instances of the search parameters, for evaluating the model on concrete
  inputs: one whose searches find nothing, and one whose ordered and compact
  searches report the first character of a non-empty text.
\<close>

definition no_spans :: "string \<Rightarrow> string list \<Rightarrow> span list" where
  "no_spans text tokens = []"

definition first_char_span :: "string \<Rightarrow> string list \<Rightarrow> span list" where
  "first_char_span text tokens = (if text = [] then [] else [(0, 1)])"


definition utils_first :: utils_text where
  "utils_first = \<lparr>spans_of_tokens_ordered = first_char_span,
                   spans_of_tokens_compact = first_char_span,
                   spans_of_tokens_all = no_spans\<rparr>"


section \<open>Span lists and the layout of the output\<close>

text \<open>
  A span of a text is a half-open pair of offsets with \<open>0 \<le> start < end \<le> len(text)\<close>.
  A span list is valid for a text when its spans are spans of the text, are sorted by
  start offset, and no two of them overlap.
\<close>

definition span_in_text :: "string \<Rightarrow> span \<Rightarrow> bool" where
  "span_in_text text s = (0 \<le> fst s \<and> fst s < snd s \<and> snd s \<le> int (length text))"

definition spans_disjoint :: "span \<Rightarrow> span \<Rightarrow> bool" where
  "spans_disjoint s t = (snd s \<le> fst t \<or> snd t \<le> fst s)"

fun pairwise_disjoint :: "span list \<Rightarrow> bool" where
  "pairwise_disjoint [] = True"
| "pairwise_disjoint (s # ss) = ((\<forall>t \<in> set ss. spans_disjoint s t) \<and> pairwise_disjoint ss)"

definition valid_spans :: "string \<Rightarrow> span list \<Rightarrow> bool" where
  "valid_spans text spans =
     ((\<forall>s \<in> set spans. span_in_text text s) \<and> sorted (map fst spans) \<and> pairwise_disjoint spans)"

text \<open>
  The layout that the renderer is expected to produce: the text cut at the spans, the
  pieces outside the spans plain and the pieces inside marked, in text order.
  \<open>show_segment\<close> writes a marked piece the way the loop of \<open>markdown2\<close> does.
\<close>

datatype segment = Plain string | Marked string

fun segments :: "string \<Rightarrow> span list \<Rightarrow> nat \<Rightarrow> segment list" where
  "segments text [] k = [Plain (drop k text)]"
| "segments text ((i, j) # spans) k =
     Plain (take (nat i - k) (drop k text))
       # Marked (take (nat j - nat i) (drop (nat i) text))
       # segments text spans (nat j)"

fun show_segment :: "string option \<Rightarrow> string option \<Rightarrow> segment \<Rightarrow> string" where
  "show_segment fg_color bg_color (Plain s) = s"
| "show_segment fg_color bg_color (Marked s) =
     (if py_truthy bg_color then markdown_bgcolor s bg_color else markdown_fgcolor s fg_color)"

text \<open>
  Taking markers out of a rendered string. A cut list is read from left to right over the
  string: \<open>Keep n\<close> keeps the next \<open>n\<close> characters, \<open>Skip n\<close> takes the next \<open>n\<close>
  characters out, and what is left after the last cut is kept. The result is the kept
  text and the pieces taken out, in order. \<open>marker_cuts\<close> is the cut list for a span
  list and markers of lengths \<open>a\<close> (before a span) and \<open>b\<close> (after it): it depends on
  the offsets of the spans and the two lengths only.
\<close>

datatype cut = Keep nat | Skip nat

fun cut_string :: "cut list \<Rightarrow> string \<Rightarrow> string \<times> string list" where
  "cut_string [] s = (s, [])"
| "cut_string (Keep n # cs) s =
     (case cut_string cs (drop n s) of (kept, removed) \<Rightarrow> (take n s @ kept, removed))"
| "cut_string (Skip n # cs) s =
     (case cut_string cs (drop n s) of (kept, removed) \<Rightarrow> (kept, take n s # removed))"

fun marker_cuts :: "span list \<Rightarrow> nat \<Rightarrow> nat \<Rightarrow> int \<Rightarrow> cut list" where
  "marker_cuts [] a b k = []"
| "marker_cuts ((i, j) # spans) a b k =
     Keep (nat (i - k)) # Skip a # Keep (nat (j - i)) # Skip b # marker_cuts spans a b j"

text \<open>
  Each span starts at or after the end of the one before it (\<open>k\<close>, at first 0) and
  ends inside the text.
\<close>

fun chained :: "nat \<Rightarrow> int \<Rightarrow> span list \<Rightarrow> bool" where
  "chained n k [] = True"
| "chained n k ((i, j) # spans) = (k \<le> i \<and> i \<le> j \<and> j \<le> int n \<and> chained n j spans)"


section \<open>Properties of clean_question\<close>

lemma re_class_star_split:
  "re_class_star cls s = (takeWhile cls s, dropWhile cls s)"
  by (induction s) auto

lemma clean_question_dropWhile:
  "clean_question s = dropWhile question_number_char s"
  by (cases s) (auto simp: clean_question_def re_class_plus_def re_class_star_split)

text \<open>
  Claim C9. Cleaning a question twice is the same as cleaning it once: the result of
  \<open>clean_question\<close> is \<open>s\<close> without its longest leading run of digits, dots and
  whitespace, so the result is empty or starts with a character outside that class.
\<close>

theorem clean_question_idempotent:
  "clean_question (clean_question s) = clean_question s
   \<and> (clean_question s = [] \<or> \<not> question_number_char (hd (clean_question s)))
   \<and> s = takeWhile question_number_char s @ clean_question s"
proof -
  have run: "clean_question s = dropWhile question_number_char s"
    by (rule clean_question_dropWhile)
  have "clean_question (clean_question s) = clean_question s"
    by (simp add: clean_question_dropWhile dropWhile_idem)
  moreover have "clean_question s = [] \<or> \<not> question_number_char (hd (clean_question s))"
    unfolding run by (metis hd_dropWhile)
  moreover have "s = takeWhile question_number_char s @ clean_question s"
    unfolding run by simp
  ultimately show ?thesis by blast
qed

theorem clean_question_idempotent_witness:
  "clean_question (clean_question ''12. Fee?'') = clean_question ''12. Fee?''
   \<and> clean_question ''12. Fee?'' = ''Fee?''
   \<and> \<not> question_number_char (hd (clean_question ''12. Fee?''))"
proof -
  have v: "clean_question ''12. Fee?'' = ''Fee?''"
    by (simp add: clean_question_def re_class_plus_def question_number_char_def
        re_digit_def re_space_def)
  have "\<not> question_number_char (hd ''Fee?'')"
    by (simp add: question_number_char_def re_digit_def re_space_def)
  with v clean_question_idempotent [of "''12. Fee?''"] show ?thesis by simp
qed

section \<open>The choice of the spans\<close>

lemma markdown2_spans_large:
  "\<not> length tokens < 20 \<Longrightarrow>
   markdown2_spans U text tokens log =
     (spans_of_tokens_all U text tokens,
      log @ [Called Tier_all text tokens, Printed_spans Tier_all (spans_of_tokens_all U text tokens)])"
  by (simp add: markdown2_spans_def call_tier_def print_spans_def)

lemma markdown2_spans_small:
  "length tokens < 20 \<Longrightarrow>
   markdown2_spans U text tokens log =
     (if spans_of_tokens_ordered U text tokens \<noteq> [] then
        (spans_of_tokens_ordered U text tokens, log @ [Called Tier_ordered text tokens])
      else if spans_of_tokens_compact U text tokens \<noteq> [] then
        (spans_of_tokens_compact U text tokens,
         log @ [Called Tier_ordered text tokens, Called Tier_compact text tokens,
                Printed_spans Tier_compact (spans_of_tokens_compact U text tokens)])
      else
        (spans_of_tokens_all U text tokens,
         log @ [Called Tier_ordered text tokens, Called Tier_compact text tokens,
                Printed_spans Tier_compact [], Called Tier_all text tokens,
                Printed_spans Tier_all (spans_of_tokens_all U text tokens)]))"
  by (simp add: markdown2_spans_def call_tier_def print_spans_def)

lemma markdown2_render_no_spans: "markdown2_render text [] fg_color bg_color = text"
  by (simp add: markdown2_render_def py_slice_from_def py_index_def)

lemma utils_first_simps:
  "spans_of_tokens_ordered utils_first = first_char_span"
  "spans_of_tokens_compact utils_first = first_char_span"
  "spans_of_tokens_all utils_first = no_spans"
  by (simp_all add: utils_first_def)


lemma render_first_char_red:
  "markdown2_render ''abc'' [(0, 1)] None (Some ''red'') =
     markdown_bgcolor ''a'' (Some ''red'') @ ''bc''"
  by (simp add: markdown2_render_def py_slice_def py_slice_from_def py_index_def py_truthy_def)

text \<open>
  Claim C1, as the code has it. With 20 tokens or more the guard of line 133 is false
  and its whole block is skipped, the ordered search and the compact search with it:
  the only search called is \<open>spans_of_tokens_all\<close>, and its result is highlighted.
\<close>

theorem large_token_list_uses_all_only:
  "20 \<le> length tokens \<Longrightarrow>
   markdown2 U text tokens fg_color bg_color log =
     (markdown2_render text (spans_of_tokens_all U text tokens) fg_color bg_color,
      log @ [Printed_tokens tokens, Called Tier_all text tokens,
             Printed_spans Tier_all (spans_of_tokens_all U text tokens)])"
  by (simp add: markdown2_def markdown2_spans_large)

theorem large_token_list_uses_all_only_witness:
  "20 \<le> length (replicate 20 ''fee'')
   \<and> markdown2 utils_first ''abc'' (replicate 20 ''fee'') None (Some ''red'') [] =
       (''abc'', [Printed_tokens (replicate 20 ''fee''),
                  Called Tier_all ''abc'' (replicate 20 ''fee''),
                  Printed_spans Tier_all []])"
  using large_token_list_uses_all_only
    [of "replicate 20 ''fee''" utils_first "''abc''" None "Some ''red''" "[]"]
  by (simp add: utils_first_simps no_spans_def markdown2_render_no_spans)

text \<open>
  Claim C1, as it is written, fails: with 20 tokens the compact search is not called,
  although here it would have found a span, and nothing is highlighted.
\<close>

theorem large_token_list_skips_compact:
  "20 \<le> length (replicate 20 ''fee'')
   \<and> spans_of_tokens_compact utils_first ''abc'' (replicate 20 ''fee'') = [(0, 1)]
   \<and> Called Tier_compact ''abc'' (replicate 20 ''fee'')
       \<notin> set (snd (markdown2 utils_first ''abc'' (replicate 20 ''fee'') None (Some ''red'') []))
   \<and> fst (markdown2 utils_first ''abc'' (replicate 20 ''fee'') None (Some ''red'') []) = ''abc''"
  by (simp add: markdown2_def markdown2_spans_large utils_first_simps no_spans_def
      first_char_span_def markdown2_render_no_spans)

text \<open>
  Claim C2. With fewer than 20 tokens the searches are called in the order ordered,
  compact, all; the first one that returns a non-empty list gives the spans that are
  highlighted, and no search after it is called. When the first two return nothing
  the spans are those of the third, empty or not.
\<close>

theorem small_token_list_first_tier_wins:
  "length tokens < 20 \<Longrightarrow>
   markdown2 U text tokens fg_color bg_color log =
     (if spans_of_tokens_ordered U text tokens \<noteq> [] then
        (markdown2_render text (spans_of_tokens_ordered U text tokens) fg_color bg_color,
         log @ [Printed_tokens tokens, Called Tier_ordered text tokens])
      else if spans_of_tokens_compact U text tokens \<noteq> [] then
        (markdown2_render text (spans_of_tokens_compact U text tokens) fg_color bg_color,
         log @ [Printed_tokens tokens, Called Tier_ordered text tokens,
                Called Tier_compact text tokens,
                Printed_spans Tier_compact (spans_of_tokens_compact U text tokens)])
      else
        (markdown2_render text (spans_of_tokens_all U text tokens) fg_color bg_color,
         log @ [Printed_tokens tokens, Called Tier_ordered text tokens,
                Called Tier_compact text tokens, Printed_spans Tier_compact [],
                Called Tier_all text tokens,
                Printed_spans Tier_all (spans_of_tokens_all U text tokens)]))"
  by (simp add: markdown2_def markdown2_spans_small)

theorem small_token_list_first_tier_wins_witness:
  "length [''fee''] < 20
   \<and> markdown2 utils_first ''abc'' [''fee''] None (Some ''red'') [] =
       (markdown_bgcolor ''a'' (Some ''red'') @ ''bc'',
        [Printed_tokens [''fee''], Called Tier_ordered ''abc'' [''fee'']])"
  using small_token_list_first_tier_wins
    [of "[''fee'']" utils_first "''abc''" None "Some ''red''" "[]"]
  by (simp add: utils_first_simps first_char_span_def render_first_char_red)


section \<open>The layout of the rendered text\<close>

lemma py_slice_inside:
  "0 \<le> a \<Longrightarrow> a \<le> b \<Longrightarrow> b \<le> int (length xs) \<Longrightarrow>
   py_slice xs a b = take (nat b - nat a) (drop (nat a) xs)"
  by (simp add: py_slice_def py_index_def min_def Let_def)

lemma py_slice_from_inside:
  "0 \<le> a \<Longrightarrow> a \<le> int (length xs) \<Longrightarrow> py_slice_from xs a = drop (nat a) xs"
  by (simp add: py_slice_from_def py_index_def min_def)

lemma take_between_drop:
  "a \<le> b \<Longrightarrow> take (b - a) (drop a xs) @ drop b xs = drop a xs"
proof -
  assume "a \<le> b"
  then have "drop b xs = drop (b - a) (drop a xs)" by simp
  then show ?thesis by (simp only: append_take_drop_id)
qed

lemma valid_spans_chained_from:
  "\<forall>s \<in> set spans. span_in_text text s \<and> k \<le> fst s \<Longrightarrow> sorted (map fst spans) \<Longrightarrow>
   pairwise_disjoint spans \<Longrightarrow> chained (length text) k spans"
proof (induction spans arbitrary: k)
  case Nil
  then show ?case by simp
next
  case (Cons s spans)
  obtain i j where s: "s = (i, j)" by (cases s)
  from Cons.prems(1) s have here: "k \<le> i" "0 \<le> i" "i < j" "j \<le> int (length text)"
    by (auto simp: span_in_text_def)
  have later: "\<forall>t \<in> set spans. span_in_text text t \<and> j \<le> fst t"
  proof
    fix t assume t: "t \<in> set spans"
    with Cons.prems(1) have in_text: "span_in_text text t" by simp
    from t Cons.prems(2) s have "i \<le> fst t" by auto
    moreover from in_text have "fst t < snd t" by (simp add: span_in_text_def)
    moreover from t Cons.prems(3) s have "j \<le> fst t \<or> snd t \<le> i"
      by (auto simp: spans_disjoint_def)
    ultimately have "j \<le> fst t" by linarith
    with in_text show "span_in_text text t \<and> j \<le> fst t" by simp
  qed
  from Cons.prems(2,3) have "sorted (map fst spans)" "pairwise_disjoint spans" by simp_all
  with later have "chained (length text) j spans" by (rule Cons.IH)
  with here s show ?case by simp
qed

lemma valid_spans_chained: "valid_spans text spans \<Longrightarrow> chained (length text) 0 spans"
  by (rule valid_spans_chained_from) (auto simp: valid_spans_def span_in_text_def)

lemma markdown2_loop_segments:
  "0 \<le> k \<Longrightarrow> chained (length text) k spans \<Longrightarrow>
   (case markdown2_loop text fg_color bg_color spans (out, k) of
      (out', k') \<Rightarrow> out' @ py_slice_from text k')
     = out @ concat (map (show_segment fg_color bg_color) (segments text spans (nat k)))"
proof (induction spans arbitrary: out k)
  case Nil
  then show ?case by (simp add: py_slice_from_def py_index_def min_def)
next
  case (Cons s spans)
  obtain i j where s: "s = (i, j)" by (cases s)
  from Cons.prems s have b: "k \<le> i" "i \<le> j" "j \<le> int (length text)" "chained (length text) j spans"
    by simp_all
  with Cons.prems(1) have j0: "0 \<le> j" and i0: "0 \<le> i" by linarith+
  have s1: "py_slice text k i = take (nat i - nat k) (drop (nat k) text)"
    using Cons.prems(1) b by (intro py_slice_inside) linarith+
  have s2: "py_slice text i j = take (nat j - nat i) (drop (nat i) text)"
    using i0 b by (intro py_slice_inside) linarith+
  show ?case
    using Cons.IH [OF j0 b(4)] by (simp add: s s1 s2 Let_def)
qed

lemma cut_keep:
  "cut_string (Keep (length p) # cs) (p @ s) =
     (case cut_string cs s of (kept, removed) \<Rightarrow> (p @ kept, removed))"
  by simp

lemma cut_skip:
  "cut_string (Skip (length p) # cs) (p @ s) =
     (case cut_string cs s of (kept, removed) \<Rightarrow> (kept, p # removed))"
  by simp

lemma cut_segments:
  "0 \<le> k \<Longrightarrow> chained (length text) k spans \<Longrightarrow>
   cut_string (marker_cuts spans (length open_marker) (length close_marker) k)
     (concat (map (\<lambda>seg. case seg of Plain s \<Rightarrow> s | Marked s \<Rightarrow> open_marker @ s @ close_marker)
                (segments text spans (nat k))))
   = (drop (nat k) text, concat (map (\<lambda>s. [open_marker, close_marker]) spans))"
proof (induction spans arbitrary: k)
  case Nil
  then show ?case by simp
next
  case (Cons s spans)
  obtain i j where s: "s = (i, j)" by (cases s)
  from Cons.prems s have b: "k \<le> i" "i \<le> j" "j \<le> int (length text)"
    "chained (length text) j spans"
    by simp_all
  with Cons.prems(1) have j0: "0 \<le> j" by linarith
  define p where "p = take (nat i - nat k) (drop (nat k) text)"
  define m where "m = take (nat j - nat i) (drop (nat i) text)"
  define rest where "rest = concat (map (\<lambda>seg. case seg of Plain s \<Rightarrow> s
      | Marked s \<Rightarrow> open_marker @ s @ close_marker) (segments text spans (nat j)))"
  have lp: "nat (i - k) = length p" and lm: "nat (j - i) = length m"
    using b Cons.prems(1) by (simp_all add: p_def m_def min_def) linarith+
  have ki: "nat k \<le> nat i" and ij: "nat i \<le> nat j" using b Cons.prems(1) by linarith+
  have whole: "p @ m @ drop (nat j) text = drop (nat k) text"
    unfolding p_def m_def by (simp only: take_between_drop [OF ij] take_between_drop [OF ki])
  have str: "concat (map (\<lambda>seg. case seg of Plain s \<Rightarrow> s | Marked s \<Rightarrow> open_marker @ s @ close_marker)
                (segments text (s # spans) (nat k))) = p @ open_marker @ m @ close_marker @ rest"
    by (simp add: s p_def m_def rest_def)
  have cuts: "marker_cuts (s # spans) (length open_marker) (length close_marker) k =
      Keep (length p) # Skip (length open_marker) # Keep (length m) # Skip (length close_marker)
        # marker_cuts spans (length open_marker) (length close_marker) j"
    by (simp add: s lp lm)
  have ih: "cut_string (marker_cuts spans (length open_marker) (length close_marker) j) rest =
      (drop (nat j) text, concat (map (\<lambda>s. [open_marker, close_marker]) spans))"
    unfolding rest_def by (rule Cons.IH [OF j0 b(4)])
  show ?case
    unfolding str cuts cut_keep cut_skip ih using whole by simp
qed

text \<open>
  Claim C6. For a valid span list the output of the renderer is the text cut at the
  spans: the pieces outside the spans are copied as they are and in order, and the piece
  of every span stands between the opening and the closing text of its style marker (the
  HTML span of the background colour, or \<open>:color[\<close> and \<open>]\<close>). Taking out of the
  output the characters at the places of the markers takes out exactly those marker
  texts, two for every span, and leaves exactly the original text.
\<close>

theorem render_copies_text_around_markers:
  "valid_spans text spans \<Longrightarrow>
   (let open_marker = (if py_truthy bg_color
                   then ''<span style='' @ [CHR 0x22] @ ''background-color:''
                          @ py_format bg_color @ '';'' @ [CHR 0x22] @ ''>''
                   else '':'' @ py_format fg_color @ ''['');
        close_marker = (if py_truthy bg_color then ''</span>'' else '']'');
        output = markdown2_render text spans fg_color bg_color
    in output = concat (map (\<lambda>seg. case seg of Plain s \<Rightarrow> s
                                      | Marked s \<Rightarrow> open_marker @ s @ close_marker)
                          (segments text spans 0))
       \<and> cut_string (marker_cuts spans (length open_marker) (length close_marker) 0) output =
           (text, concat (map (\<lambda>s. [open_marker, close_marker]) spans)))"
proof -
  assume "valid_spans text spans"
  then have c: "chained (length text) 0 spans" by (rule valid_spans_chained)
  define open_marker where "open_marker = (if py_truthy bg_color
                   then ''<span style='' @ [CHR 0x22] @ ''background-color:''
                          @ py_format bg_color @ '';'' @ [CHR 0x22] @ ''>''
                   else '':'' @ py_format fg_color @ ''['')"
  define close_marker where "close_marker = (if py_truthy bg_color then ''</span>'' else '']'')"
  have sh: "show_segment fg_color bg_color =
      (\<lambda>seg. case seg of Plain s \<Rightarrow> s | Marked s \<Rightarrow> open_marker @ s @ close_marker)"
  proof
    fix seg
    show "show_segment fg_color bg_color seg =
      (case seg of Plain s \<Rightarrow> s | Marked s \<Rightarrow> open_marker @ s @ close_marker)"
      by (cases seg)
         (simp_all add: open_marker_def close_marker_def markdown_bgcolor_def markdown_fgcolor_def)
  qed
  have out: "markdown2_render text spans fg_color bg_color =
      concat (map (\<lambda>seg. case seg of Plain s \<Rightarrow> s | Marked s \<Rightarrow> open_marker @ s @ close_marker)
                (segments text spans 0))"
    using markdown2_loop_segments [of 0 "text" spans fg_color bg_color "[]"] c
    by (simp add: markdown2_render_def sh)
  have "cut_string (marker_cuts spans (length open_marker) (length close_marker) 0)
          (markdown2_render text spans fg_color bg_color) =
        (text, concat (map (\<lambda>s. [open_marker, close_marker]) spans))"
    unfolding out using cut_segments [of 0 "text" spans open_marker close_marker] c by simp
  with out show ?thesis
    unfolding Let_def open_marker_def [symmetric] close_marker_def [symmetric] by simp
qed

lemma segments_abcdef:
  "segments ''abcdef'' [(1, 2), (4, 5)] 0 =
     [Plain ''a'', Marked ''b'', Plain ''cd'', Marked ''e'', Plain ''f'']"
  by (simp add: numeral_eq_Suc)

lemma valid_spans_abcdef: "valid_spans ''abcdef'' [(1, 2), (4, 5)]"
  by (simp add: valid_spans_def span_in_text_def spans_disjoint_def)

theorem render_copies_text_around_markers_witness:
  "valid_spans ''abcdef'' [(1, 2), (4, 5)]
   \<and> markdown2_render ''abcdef'' [(1, 2), (4, 5)] None (Some ''red'') =
       ''a<span style='' @ [CHR 0x22] @ ''background-color:red;'' @ [CHR 0x22]
         @ ''>b</span>cd<span style='' @ [CHR 0x22] @ ''background-color:red;'' @ [CHR 0x22]
         @ ''>e</span>f''
   \<and> cut_string (marker_cuts [(1, 2), (4, 5)] 36 7 0)
         (markdown2_render ''abcdef'' [(1, 2), (4, 5)] None (Some ''red'')) =
       (''abcdef'',
        [''<span style='' @ [CHR 0x22] @ ''background-color:red;'' @ [CHR 0x22] @ ''>'',
         ''</span>'',
         ''<span style='' @ [CHR 0x22] @ ''background-color:red;'' @ [CHR 0x22] @ ''>'',
         ''</span>''])
   \<and> markdown2_render ''abcdef'' [(1, 2), (4, 5)] (Some ''blue'') None = ''a:blue[b]cd:blue[e]f''
   \<and> cut_string (marker_cuts [(1, 2), (4, 5)] 6 1 0) ''a:blue[b]cd:blue[e]f'' =
       (''abcdef'', ['':blue['', '']'', '':blue['', '']''])"
proof -
  have t: "py_truthy (Some ''red'')" and f: "\<not> py_truthy None"
    by (simp_all add: py_truthy_def)
  from render_copies_text_around_markers [OF valid_spans_abcdef, of "Some ''red''" None]
    render_copies_text_around_markers [OF valid_spans_abcdef, of None "Some ''blue''"]
    valid_spans_abcdef
  show ?thesis
    unfolding Let_def segments_abcdef by (simp add: t f py_format_def)
qed


section \<open>Empty token lists\<close>





section \<open>What markdown_escape returns\<close>

lemma markdown_escape_no_markup_char:
  "c \<in> set (markdown_escape s) \<Longrightarrow> \<not> markup_char c"
  by (induction s) (auto simp: escape_template_def markup_char_def split: if_splits)

text \<open>
  Claim C5 asks for a backslash followed by the character that was matched. The code
  writes a backslash followed by U+0001 instead, and the matched character is gone.
\<close>

theorem markdown_escape_loses_char:
  "markdown_escape ''$5 fee'' = [CHR 0x5C, CHR 0x01] @ ''5 fee''
   \<and> markdown_escape ''$5 fee'' \<noteq> [CHR 0x5C, CHR ''$''] @ ''5 fee''
   \<and> CHR ''$'' \<notin> set (markdown_escape ''$5 fee'')"
  by (simp add: markup_char_def escape_template_def)


section \<open>The check of BUCKET_NAME\<close>

text \<open>
  Claim C10. The check raises exactly when \<open>BUCKET_NAME\<close> is not in the environment.
  When it raises, no step of the module after it has run; when the variable is set, the
  check returns nothing, changes nothing, and the module goes on to its next steps.
\<close>

theorem bucket_name_check_raises_iff_unset:
  "((\<exists>e. bucket_name_check environ = Inl e) \<longleftrightarrow> environ ''BUCKET_NAME'' = None)
   \<and> (environ ''BUCKET_NAME'' = None \<longrightarrow>
        app_module environ steps =
          (Inl (Exception ''S3 Bucket must be set for Textract processing. Please see README for more information''),
           steps))
   \<and> (environ ''BUCKET_NAME'' \<noteq> None \<longrightarrow>
        bucket_name_check environ = Inr ()
        \<and> app_module environ steps =
            (Inr (), steps @ [Set_page_config, Write_style, Markdown_css, Run_main]))"
  by (auto simp: bucket_name_check_def app_module_def dom_def)

theorem bucket_name_check_raises_iff_unset_witness:
  "(Map.empty :: string \<rightharpoonup> string) ''BUCKET_NAME'' = None
   \<and> fst (app_module Map.empty []) =
       Inl (Exception ''S3 Bucket must be set for Textract processing. Please see README for more information'')
   \<and> snd (app_module Map.empty []) = []
   \<and> [''BUCKET_NAME'' \<mapsto> ''docs''] ''BUCKET_NAME'' \<noteq> None
   \<and> app_module [''BUCKET_NAME'' \<mapsto> ''docs''] [] =
       (Inr (), [Set_page_config, Write_style, Markdown_css, Run_main])"
  using bucket_name_check_raises_iff_unset [of Map.empty "[]"]
    bucket_name_check_raises_iff_unset [of "[''BUCKET_NAME'' \<mapsto> ''docs'']" "[]"]
  by simp


section \<open>The second highlighting pass\<close>

lemma markdown2_log:
  "\<exists>new. snd (markdown2 U text tokens fg_color bg_color log) = log @ Printed_tokens tokens # new
     \<and> (\<exists>t. Called t text tokens \<in> set new)
     \<and> (\<forall>t x ts. Called t x ts \<in> set new \<longrightarrow> x = text \<and> ts = tokens)"
proof (cases "length tokens < 20")
  case True
  then show ?thesis
    by (auto simp: markdown2_def markdown2_spans_small)
next
  case False
  then show ?thesis
    by (auto simp: markdown2_def markdown2_spans_large)
qed

lemma main_highlight_unfold:
  "main_highlight U all_text tokens_answer tokens_miss log =
     markdown2 U (fst (markdown2 U (markdown_escape all_text) tokens_answer None (Some ''#90EE90'') log))
       tokens_miss None (Some ''red'')
       (snd (markdown2 U (markdown_escape all_text) tokens_answer None (Some ''#90EE90'') log))"
  by (simp add: main_highlight_def split_def Let_def)

text \<open>
  Claim C4, as the code has it. The second call of \<open>markdown2\<close> is given the text
  that the first call returned, markers included: every search of the second pass is
  called on that text, with the miss tokens, and at least one search is.
\<close>

theorem second_pass_reads_first_output:
  "(let first = markdown2 U (markdown_escape all_text) tokens_answer None (Some ''#90EE90'') log;
        both = main_highlight U all_text tokens_answer tokens_miss log;
        added = drop (length (snd first)) (snd both)
    in both = markdown2 U (fst first) tokens_miss None (Some ''red'') (snd first)
       \<and> (\<exists>t. Called t (fst first) tokens_miss \<in> set added)
       \<and> (\<forall>t x ts. Called t x ts \<in> set added \<longrightarrow> x = fst first \<and> ts = tokens_miss))"
proof -
  define first where "first = markdown2 U (markdown_escape all_text) tokens_answer None (Some ''#90EE90'') log"
  define both where "both = main_highlight U all_text tokens_answer tokens_miss log"
  have b: "both = markdown2 U (fst first) tokens_miss None (Some ''red'') (snd first)"
    unfolding both_def first_def by (rule main_highlight_unfold)
  obtain new where new: "snd both = snd first @ Printed_tokens tokens_miss # new"
    "\<exists>t. Called t (fst first) tokens_miss \<in> set new"
    "\<forall>t x ts. Called t x ts \<in> set new \<longrightarrow> x = fst first \<and> ts = tokens_miss"
    using markdown2_log [of U "fst first" tokens_miss None "Some ''red''" "snd first"]
    unfolding b by blast
  from new(1) have d: "drop (length (snd first)) (snd both) = Printed_tokens tokens_miss # new"
    by simp
  have "(\<exists>t. Called t (fst first) tokens_miss \<in> set (drop (length (snd first)) (snd both)))
       \<and> (\<forall>t x ts. Called t x ts \<in> set (drop (length (snd first)) (snd both))
             \<longrightarrow> x = fst first \<and> ts = tokens_miss)"
    unfolding d using new(2,3) by auto
  with b show ?thesis
    unfolding Let_def first_def [symmetric] both_def [symmetric] by blast
qed

text \<open>
  The two passes on the text \<open>abc\<close>, where the first pass marks the first character.
\<close>

lemma markdown_escape_abc: "markdown_escape ''abc'' = ''abc''"
  by (simp add: markup_char_def)

lemma render_first_char_green:
  "markdown2_render ''abc'' [(0, 1)] None (Some ''#90EE90'') =
     markdown_bgcolor ''a'' (Some ''#90EE90'') @ ''bc''"
  by (simp add: markdown2_render_def py_slice_def py_slice_from_def py_index_def py_truthy_def)

lemma first_pass_abc:
  "markdown2 utils_first (markdown_escape ''abc'') [''a''] None (Some ''#90EE90'') [] =
     (markdown_bgcolor ''a'' (Some ''#90EE90'') @ ''bc'',
      [Printed_tokens [''a''], Called Tier_ordered ''abc'' [''a'']])"
  unfolding markdown_escape_abc
  by (simp add: markdown2_def markdown2_spans_small utils_first_simps first_char_span_def
      render_first_char_green)

lemma marked_abc_not_empty: "markdown_bgcolor ''a'' (Some ''#90EE90'') @ ''bc'' \<noteq> []"
  by simp

lemma second_pass_abc:
  "snd (markdown2 utils_first (markdown_bgcolor ''a'' (Some ''#90EE90'') @ ''bc'') [] None
          (Some ''red'') log) =
     log @ [Printed_tokens [],
            Called Tier_ordered (markdown_bgcolor ''a'' (Some ''#90EE90'') @ ''bc'') []]"
  using marked_abc_not_empty
  by (simp add: markdown2_def markdown2_spans_small utils_first_simps first_char_span_def)

lemma main_highlight_abc_log:
  "snd (main_highlight utils_first ''abc'' [''a''] [] []) =
     [Printed_tokens [''a''], Called Tier_ordered ''abc'' [''a''], Printed_tokens [],
      Called Tier_ordered (markdown_bgcolor ''a'' (Some ''#90EE90'') @ ''bc'') []]"
  unfolding main_highlight_unfold first_pass_abc fst_conv snd_conv second_pass_abc
  by simp

lemma marked_abc_differs: "markdown_bgcolor ''a'' (Some ''#90EE90'') @ ''bc'' \<noteq> ''abc''"
  by (simp add: markdown_bgcolor_def)

text \<open>
  Claim C4, as it is written, fails: the search of the second pass is called on the
  marked-up text of the first pass, and no search of the second pass is called on the
  text \<open>abc\<close> that the passes started from.
\<close>

theorem second_pass_not_on_original:
  "Called Tier_ordered (markdown_bgcolor ''a'' (Some ''#90EE90'') @ ''bc'') []
     \<in> set (snd (main_highlight utils_first ''abc'' [''a''] [] []))
   \<and> Called Tier_ordered ''abc'' [] \<notin> set (snd (main_highlight utils_first ''abc'' [''a''] [] []))
   \<and> markdown_escape ''abc'' = ''abc''
   \<and> markdown_bgcolor ''a'' (Some ''#90EE90'') @ ''bc'' \<noteq> ''abc''"
proof -
  have "Called Tier_ordered ''abc'' [] \<notin> set (snd (main_highlight utils_first ''abc'' [''a''] [] []))"
    unfolding main_highlight_abc_log using marked_abc_differs by auto
  moreover have "Called Tier_ordered (markdown_bgcolor ''a'' (Some ''#90EE90'') @ ''bc'') []
     \<in> set (snd (main_highlight utils_first ''abc'' [''a''] [] []))"
    unfolding main_highlight_abc_log by simp
  ultimately show ?thesis using markdown_escape_abc marked_abc_differs by blast
qed

theorem second_pass_reads_first_output_witness:
  "Called Tier_ordered (markdown_bgcolor ''a'' (Some ''#90EE90'') @ ''bc'') []
     \<in> set (drop (length (snd (markdown2 utils_first (markdown_escape ''abc'') [''a''] None
                                 (Some ''#90EE90'') [])))
              (snd (main_highlight utils_first ''abc'' [''a''] [] [])))
   \<and> markdown_bgcolor ''a'' (Some ''#90EE90'') @ ''bc'' =
       fst (markdown2 utils_first (markdown_escape ''abc'') [''a''] None (Some ''#90EE90'') [])"
proof -
  have mem: "Called Tier_ordered (markdown_bgcolor ''a'' (Some ''#90EE90'') @ ''bc'') []
     \<in> set (drop (length (snd (markdown2 utils_first (markdown_escape ''abc'') [''a''] None
                                 (Some ''#90EE90'') [])))
              (snd (main_highlight utils_first ''abc'' [''a''] [] [])))"
    unfolding first_pass_abc main_highlight_abc_log by simp
  from second_pass_reads_first_output [of utils_first "''abc''" "[''a'']" "[]" "[]", unfolded Let_def]
    mem show ?thesis by blast
qed


section \<open>The two rendering modes\<close>

lemma markdown2_loop_closed:
  "markdown2_loop text fg_color bg_color spans (out, k) =
     (out @ concat (map (\<lambda>(k, i, j). py_slice text k i @
                          (if py_truthy bg_color then markdown_bgcolor (py_slice text i j) bg_color
                           else markdown_fgcolor (py_slice text i j) fg_color))
                     (zip (k # map snd spans) spans)),
      last (k # map snd spans))"
proof (induction spans arbitrary: out k)
  case Nil
  then show ?case by simp
next
  case (Cons s spans)
  obtain i j where s: "s = (i, j)" by (cases s)
  show ?case by (simp add: s Cons.IH Let_def)
qed

text \<open>
  Claim C7. The renderer has two modes, chosen by the colour arguments of the call. With
  a background colour (one that \<open>if bg_color:\<close> accepts: not \<open>None\<close>, not empty) every
  span of the list is written as an HTML span with that background colour; in every
  other call every span is written as \<open>:color[text]\<close> with the foreground colour. In both
  modes the text before each span, from the end of the span before it, precedes the marker.
\<close>

theorem two_rendering_modes:
  "(py_truthy bg_color \<longrightarrow>
      markdown2_render text spans fg_color bg_color =
        concat (map (\<lambda>(k, i, j). py_slice text k i
                       @ ''<span style='' @ [CHR 0x22] @ ''background-color:''
                       @ py_format bg_color @ '';'' @ [CHR 0x22] @ ''>''
                       @ py_slice text i j @ ''</span>'')
                  (zip (0 # map snd spans) spans))
          @ py_slice_from text (last (0 # map snd spans)))
   \<and> (\<not> py_truthy bg_color \<longrightarrow>
      markdown2_render text spans fg_color bg_color =
        concat (map (\<lambda>(k, i, j). py_slice text k i
                       @ '':'' @ py_format fg_color @ ''['' @ py_slice text i j @ '']'')
                  (zip (0 # map snd spans) spans))
          @ py_slice_from text (last (0 # map snd spans)))"
  by (simp add: markdown2_render_def markdown2_loop_closed markdown_bgcolor_def
      markdown_fgcolor_def)

lemma slices_abcdef:
  "py_slice ''abcdef'' 0 1 = ''a''" "py_slice ''abcdef'' 1 2 = ''b''"
  "py_slice ''abcdef'' 2 4 = ''cd''" "py_slice ''abcdef'' 4 5 = ''e''"
  "py_slice_from ''abcdef'' 5 = ''f''"
  by (simp_all add: py_slice_def py_slice_from_def py_index_def)

theorem two_rendering_modes_witness:
  "py_truthy (Some ''red'')
   \<and> markdown2_render ''abcdef'' [(1, 2), (4, 5)] None (Some ''red'') =
       ''a<span style='' @ [CHR 0x22] @ ''background-color:red;'' @ [CHR 0x22]
         @ ''>b</span>cd<span style='' @ [CHR 0x22] @ ''background-color:red;'' @ [CHR 0x22]
         @ ''>e</span>f''
   \<and> \<not> py_truthy None
   \<and> markdown2_render ''abcdef'' [(1, 2), (4, 5)] (Some ''blue'') None = ''a:blue[b]cd:blue[e]f''"
proof -
  have t: "py_truthy (Some ''red'')" and f: "\<not> py_truthy None"
    by (simp_all add: py_truthy_def)
  from two_rendering_modes [of "Some ''red''" "''abcdef''" "[(1, 2), (4, 5)]" None]
    two_rendering_modes [of None "''abcdef''" "[(1, 2), (4, 5)]" "Some ''blue''"] t f
  show ?thesis by (simp add: slices_abcdef py_format_def)
qed

end
